theory Spec2Isabelle
  imports Complex_Main "HOL-Library.Word"
begin

section \<open>JavaScript values used by the converter\<close>

text \<open>
  A model of the ascii-pic converter: the charset table (\<open>charsets.js\<close>), the option
  validation (\<open>utils.js\<close>) and the conversion, saving and preview functions
  (\<open>converter.js\<close>). A finite double is the real number it denotes. The loops and the
  pipeline are stated with the exact operations of the reals, which is all that the
  statements on shape, bounds, inversion and error handling need; where a result depends
  on the rounding of the doubles (the glyph chosen for a pixel, the target height) the
  rounded operations are used. The \<open>async\<close> functions run their steps in program order,
  so an \<open>await\<close> is an ordinary call whose result is a value or a thrown error. What the
  Node runtime and the image library do is not modelled but taken as a parameter.

  A JavaScript string is a sequence of UTF-16 code units. Every glyph of the registered
  character sets lies in the Basic Multilingual Plane, so one glyph is one code unit and
  \<open>length\<close> is the \<open>.length\<close> of the source string.
\<close>

type_synonym jsstring = "16 word list"

definition ascii :: "string \<Rightarrow> jsstring" where
  "ascii s = map of_char s"

definition newline :: "16 word" where
  "newline = 10"

text \<open>
  The values an option field can hold. Numbers are IEEE doubles in the source; a finite
  one is the real number it denotes, \<open>JNaN\<close> and \<open>JInf\<close> (\<open>True\<close> for \<open>+Infinity\<close>) are
  kept apart because \<open>typeof\<close> and the comparisons treat them specially. \<open>JObj s\<close> is any
  object, array or function; \<open>s\<close> is the string its conversion to a property key yields.
\<close>

datatype jsval =
    Undefined
  | Null
  | JBool bool
  | JNum real
  | JNaN
  | JInf bool
  | JStr jsstring
  | JObj jsstring

text \<open>Thrown values: every \<open>throw\<close> of the source is \<open>new Error(message)\<close>.\<close>

datatype error = Error (message: jsstring)

text \<open>\<open>typeof v === "number"\<close>\<close>

fun typeofNumber :: "jsval \<Rightarrow> bool" where
  "typeofNumber (JNum x) = True"
| "typeofNumber JNaN = True"
| "typeofNumber (JInf p) = True"
| "typeofNumber v = False"

text \<open>
  \<open>v < r\<close> and \<open>v > r\<close> for \<open>v\<close> of type number and a finite literal \<open>r\<close>. Every
  comparison with NaN is false. In the source both comparisons stand behind
  \<open>typeof v !== "number" ||\<close>, so they are never evaluated on another type.
\<close>

fun numLess :: "jsval \<Rightarrow> real \<Rightarrow> bool" where
  "numLess (JNum x) r = (x < r)"
| "numLess (JInf p) r = (\<not> p)"
| "numLess v r = False"

fun numGreater :: "jsval \<Rightarrow> real \<Rightarrow> bool" where
  "numGreater (JNum x) r = (x > r)"
| "numGreater (JInf p) r = p"
| "numGreater v r = False"

text \<open>Truthiness, as \<open>if (v)\<close> and \<open>!v\<close> see a value.\<close>

fun truthy :: "jsval \<Rightarrow> bool" where
  "truthy Undefined = False"
| "truthy Null = False"
| "truthy (JBool b) = b"
| "truthy (JNum x) = (x \<noteq> 0)"
| "truthy JNaN = False"
| "truthy (JInf p) = True"
| "truthy (JStr s) = (s \<noteq> [])"
| "truthy (JObj s) = True"

section \<open>Double arithmetic\<close>

text \<open>
  The result of \<open>+\<close>, \<open>-\<close>, \<open>*\<close> and \<open>/\<close> on doubles is the exact result rounded to the
  nearest double, ties to the even significand. \<open>roundDouble\<close> is that rounding for a
  real whose magnitude is in the normal range (no overflow, no subnormal result): with
  \<open>e\<close> the binary exponent of \<open>x\<close>, the doubles around \<open>x\<close> are the multiples of
  \<open>2 powr (e - 52)\<close>.
\<close>

definition roundEven :: "real \<Rightarrow> int" where
  "roundEven y =
    (let f = \<lfloor>y\<rfloor>
     in if y - of_int f < 1 / 2 then f
        else if 1 / 2 < y - of_int f then f + 1
        else if even f then f else f + 1)"

definition roundDouble :: "real \<Rightarrow> real" where
  "roundDouble x =
    (if x = 0 then 0
     else (let e = \<lfloor>log 2 \<bar>x\<bar>\<rfloor>; ulp = 2 powr (of_int e - 52)
           in ulp * of_int (roundEven (x / ulp))))"

text \<open>
  The four rounded operations that the loop body of the converter uses: \<open>x / y\<close>,
  \<open>Math.pow(x, y)\<close>, \<open>x - y\<close> and \<open>x * y\<close>. \<open>roundedArith pw\<close> is the arithmetic of the
  doubles with \<open>pw\<close> for \<open>Math.pow\<close>, whose accuracy the language standard leaves to the
  implementation; \<open>exactArith\<close> is the arithmetic of the reals.
\<close>

record arith =
  fdiv :: "real \<Rightarrow> real \<Rightarrow> real"
  fpow :: "real \<Rightarrow> real \<Rightarrow> real"
  fsub :: "real \<Rightarrow> real \<Rightarrow> real"
  fmul :: "real \<Rightarrow> real \<Rightarrow> real"

definition roundedArith :: "(real \<Rightarrow> real \<Rightarrow> real) \<Rightarrow> arith" where
  "roundedArith pw =
    \<lparr>fdiv = (\<lambda>x y. roundDouble (x / y)), fpow = pw,
     fsub = (\<lambda>x y. roundDouble (x - y)), fmul = (\<lambda>x y. roundDouble (x * y))\<rparr>"

definition exactArith :: arith where
  "exactArith =
    \<lparr>fdiv = (\<lambda>x y. x / y), fpow = (\<lambda>x y. x powr y), fsub = (\<lambda>x y. x - y),
     fmul = (\<lambda>x y. x * y)\<rparr>"

section \<open>Character sets (charsets.js)\<close>

text \<open>
  \<open>CHARSETS\<close> in the order of the object literal, each string written as its code
  units: U+2588 is the full block, U+2593, U+2592 and U+2591 are the dark, medium and
  light shades, U+2589 to U+258F the narrowing left blocks, 0x20 the space.
\<close>

definition CHARSETS :: "(jsstring \<times> jsstring) list" where
  "CHARSETS =
    [(ascii ''detailed'', ascii ''@%#*+=-:. ''),
     (ascii ''blocks'', [0x2588, 0x2589, 0x258A, 0x258B, 0x258C, 0x258D, 0x258E, 0x258F, 0x20]),
     (ascii ''classic'', ascii ''@#S%?*+;:,.''),
     (ascii ''simple'', [0x2588, 0x2588, 0x2593, 0x2592, 0x2591, 0x20]),
     (ascii ''minimal'', [0x2588, 0x2593, 0x2591, 0x20]),
     (ascii ''numbers'', ascii ''9876543210 ''),
     (ascii ''binary'', [0x2588, 0x20]),
     (ascii ''retro'', [0x2593, 0x2592, 0x2591, 0x20])]"

definition getAvailableCharsets :: "jsstring list" where
  "getAvailableCharsets = map fst CHARSETS"

text \<open>\<open>Object.prototype.hasOwnProperty.call(CHARSETS, name)\<close>\<close>

definition isValidCharset :: "jsstring \<Rightarrow> bool" where
  "isValidCharset name = (name \<in> set (map fst CHARSETS))"

section \<open>Option validation (utils.js)\<close>

text \<open>
  An options object is a finite map from property names to values. A property that is
  absent reads as \<open>undefined\<close>; a property that is present with the value \<open>undefined\<close>
  is a different object, because the spread \<open>{ ...defaults, ...options }\<close> copies it over
  the default. The spread is \<open>defaults ++ options\<close>.
\<close>

type_synonym options = "string \<rightharpoonup> jsval"

definition getProp :: "options \<Rightarrow> string \<Rightarrow> jsval" where
  "getProp obj k = (case obj k of None \<Rightarrow> Undefined | Some v \<Rightarrow> v)"

definition defaults :: "options" where
  "defaults =
    [''width'' \<mapsto> JNum 80,
     ''charset'' \<mapsto> JStr (ascii ''detailed''),
     ''contrast'' \<mapsto> JNum 1.2,
     ''aspectRatio'' \<mapsto> JNum 0.5,
     ''invert'' \<mapsto> JBool False]"

definition validateOptions :: "options \<Rightarrow> error + options" where
  "validateOptions opts =
    (let validated = defaults ++ opts in
     if \<not> typeofNumber (getProp validated ''width'')
        \<or> numLess (getProp validated ''width'') 10
        \<or> numGreater (getProp validated ''width'') 500
     then Inl (Error (ascii ''Width must be a number between 10 and 500''))
     else if \<not> typeofNumber (getProp validated ''contrast'')
        \<or> numLess (getProp validated ''contrast'') 0.1
        \<or> numGreater (getProp validated ''contrast'') 5.0
     then Inl (Error (ascii ''Contrast must be a number between 0.1 and 5.0''))
     else if \<not> typeofNumber (getProp validated ''aspectRatio'')
        \<or> numLess (getProp validated ''aspectRatio'') 0.1
        \<or> numGreater (getProp validated ''aspectRatio'') 2.0
     then Inl (Error (ascii ''Aspect ratio must be a number between 0.1 and 2.0''))
     else Inr validated)"

section \<open>Charset lookup (charsets.js)\<close>

text \<open>
  \<open>CHARSETS[name]\<close> reads an own property of the object literal or, failing that, a
  property inherited from \<open>Object.prototype\<close>. The inherited ones are functions (and
  \<open>Object.prototype\<close> itself for \<open>__proto__\<close>): truthy values that are not strings and
  have no indexed elements.
\<close>

datatype propval = PStr jsstring | PInherited

definition objectPrototypeKeys :: "jsstring list" where
  "objectPrototypeKeys = map ascii
    [''constructor'', ''__defineGetter__'', ''__defineSetter__'', ''hasOwnProperty'',
     ''__lookupGetter__'', ''__lookupSetter__'', ''isPrototypeOf'', ''propertyIsEnumerable'',
     ''toString'', ''valueOf'', ''__proto__'', ''toLocaleString'']"

definition lookupCharsets :: "jsstring \<Rightarrow> propval option" where
  "lookupCharsets key =
    (case map_of CHARSETS key of
       Some cs \<Rightarrow> Some (PStr cs)
     | None \<Rightarrow> if key \<in> set objectPrototypeKeys then Some PInherited else None)"

text \<open>
  Conversion of a value to a string, as a template literal and a property access do it.
  The decimal rendering of a finite number is the runtime's (\<open>Number::toString\<close>) and is
  a parameter.
\<close>

fun toStr :: "(real \<Rightarrow> jsstring) \<Rightarrow> jsval \<Rightarrow> jsstring" where
  "toStr numberToString Undefined = ascii ''undefined''"
| "toStr numberToString Null = ascii ''null''"
| "toStr numberToString (JBool b) = (if b then ascii ''true'' else ascii ''false'')"
| "toStr numberToString (JNum x) = numberToString x"
| "toStr numberToString JNaN = ascii ''NaN''"
| "toStr numberToString (JInf p) = (if p then ascii ''Infinity'' else ascii ''-Infinity'')"
| "toStr numberToString (JStr s) = s"
| "toStr numberToString (JObj s) = s"

text \<open>\<open>Array.prototype.join\<close>\<close>

fun joinWith :: "jsstring \<Rightarrow> jsstring list \<Rightarrow> jsstring" where
  "joinWith sep [] = []"
| "joinWith sep [l] = l"
| "joinWith sep (l # ls) = l @ sep @ joinWith sep ls"

definition getCharset :: "(real \<Rightarrow> jsstring) \<Rightarrow> jsval \<Rightarrow> error + propval" where
  "getCharset numberToString name =
    (let unknown = Inl (Error (ascii ''Unknown charset: '' @ toStr numberToString name
                     @ ascii ''. Available: '' @ joinWith (ascii '', '') getAvailableCharsets))
     in case lookupCharsets (toStr numberToString name) of
          None \<Rightarrow> unknown
        | Some (PStr cs) \<Rightarrow> if cs = [] then unknown else Inr (PStr cs)
        | Some PInherited \<Rightarrow> Inr PInherited)"

section \<open>Brightness to character mapping (converter.js, lines 56 to 86)\<close>

text \<open>
  The pixel buffer is a Node \<open>Buffer\<close>: bytes. A read past its end yields \<open>undefined\<close>,
  which the division turns into NaN; a brightness of \<open>None\<close> is NaN. The contrast has
  passed \<open>validateOptions\<close> when this code runs, so it is NaN or a number between 0.1 and
  5; there \<open>Math.pow(b, 1 / c)\<close> of a \<open>b \<ge> 0\<close> is \<open>b powr (1 / c)\<close>, zero at \<open>b = 0\<close>.
  Lines 62 to 68 of the loop body, with the exact operations (the same lines with the
  rounded operations of the doubles follow further down):
\<close>

definition adjustBrightness :: "jsval \<Rightarrow> 8 word list \<Rightarrow> nat \<Rightarrow> real option" where
  "adjustBrightness contrast data pixelIndex =
    (case contrast of
       JNum c \<Rightarrow>
         if pixelIndex < length data
         then (let brightness = real (unat (data ! pixelIndex)) / 255;
                   brightness = brightness powr (1 / c);
                   brightness = max 0 (min 1 brightness)
               in Some brightness)
         else None
     | _ \<Rightarrow> None)"

text \<open>
  Lines 71 to 79: inversion, index computation and the character appended to the output.
  An index outside the string, a NaN index and any index into an inherited
  non-string value read \<open>undefined\<close>, and \<open>asciiArt += undefined\<close> appends the nine
  characters of that word.
\<close>

definition brightnessToChar :: "jsval \<Rightarrow> propval \<Rightarrow> real option \<Rightarrow> jsstring" where
  "brightnessToChar invert charset brightness =
    (case (charset, brightness) of
       (PStr cs, Some b) \<Rightarrow>
         (let brightness = (if truthy invert then 1 - b else b);
              charIndex = \<lfloor>brightness * (real (length cs) - 1)\<rfloor>;
              i = int (length cs) - 1 - charIndex
          in if 0 \<le> i \<and> i < int (length cs) then [cs ! nat i] else ascii ''undefined'')
     | _ \<Rightarrow> ascii ''undefined'')"

definition pixelChar :: "options \<Rightarrow> propval \<Rightarrow> 8 word list \<Rightarrow> nat \<Rightarrow> jsstring" where
  "pixelChar opts charset data pixelIndex =
    brightnessToChar (getProp opts ''invert'') charset
      (adjustBrightness (getProp opts ''contrast'') data pixelIndex)"

text \<open>
  The same lines 62 to 79 in a given arithmetic. \<open>Math.max\<close>, \<open>Math.min\<close>, \<open>Math.floor\<close>,
  the comparisons and the subtractions of the integers \<open>charset.length\<close>, 1 and
  \<open>charIndex\<close> are exact on doubles; the division, the power, \<open>1 - brightness\<close> and the
  product are the operations of the arithmetic. With \<open>exactArith\<close> these are the three
  definitions above.
\<close>

definition adjustBrightnessIn :: "arith \<Rightarrow> jsval \<Rightarrow> 8 word list \<Rightarrow> nat \<Rightarrow> real option" where
  "adjustBrightnessIn a contrast data pixelIndex =
    (case contrast of
       JNum c \<Rightarrow>
         if pixelIndex < length data
         then (let brightness = fdiv a (real (unat (data ! pixelIndex))) 255;
                   brightness = fpow a brightness (fdiv a 1 c);
                   brightness = max 0 (min 1 brightness)
               in Some brightness)
         else None
     | _ \<Rightarrow> None)"

definition brightnessToCharIn :: "arith \<Rightarrow> jsval \<Rightarrow> propval \<Rightarrow> real option \<Rightarrow> jsstring" where
  "brightnessToCharIn a invert charset brightness =
    (case (charset, brightness) of
       (PStr cs, Some b) \<Rightarrow>
         (let brightness = (if truthy invert then fsub a 1 b else b);
              charIndex = \<lfloor>fmul a brightness (real (length cs) - 1)\<rfloor>;
              i = int (length cs) - 1 - charIndex
          in if 0 \<le> i \<and> i < int (length cs) then [cs ! nat i] else ascii ''undefined'')
     | _ \<Rightarrow> ascii ''undefined'')"

definition pixelCharIn ::
  "arith \<Rightarrow> options \<Rightarrow> propval \<Rightarrow> 8 word list \<Rightarrow> nat \<Rightarrow> jsstring" where
  "pixelCharIn a opts charset data pixelIndex =
    brightnessToCharIn a (getProp opts ''invert'') charset
      (adjustBrightnessIn a (getProp opts ''contrast'') data pixelIndex)"

text \<open>The inner loop over \<open>x\<close> and the outer loop over \<open>y\<close>, with \<open>asciiArt\<close> as accumulator.\<close>

function rowLoop ::
  "options \<Rightarrow> propval \<Rightarrow> 8 word list \<Rightarrow> nat \<Rightarrow> nat \<Rightarrow> nat \<Rightarrow> jsstring \<Rightarrow> jsstring" where
  "rowLoop opts charset data width y x asciiArt =
    (if x < width
     then rowLoop opts charset data width y (x + 1)
            (asciiArt @ pixelChar opts charset data (y * width + x))
     else asciiArt)"
  by pat_completeness auto
termination
  by (relation "measure (\<lambda>(opts, charset, data, width, y, x, asciiArt). width - x)") auto

function pixelLoop ::
  "options \<Rightarrow> propval \<Rightarrow> 8 word list \<Rightarrow> nat \<Rightarrow> nat \<Rightarrow> nat \<Rightarrow> jsstring \<Rightarrow> jsstring" where
  "pixelLoop opts charset data width height y asciiArt =
    (if y < height
     then pixelLoop opts charset data width height (y + 1)
            (rowLoop opts charset data width y 0 asciiArt @ [newline])
     else asciiArt)"
  by pat_completeness auto
termination
  by (relation "measure (\<lambda>(opts, charset, data, width, height, y, asciiArt). height - y)") auto

definition pixelsToAscii ::
  "options \<Rightarrow> propval \<Rightarrow> 8 word list \<Rightarrow> nat \<Rightarrow> nat \<Rightarrow> jsstring" where
  "pixelsToAscii opts charset data width height = pixelLoop opts charset data width height 0 []"

section \<open>The conversion pipeline (converter.js, utils.js)\<close>

text \<open>
  The input of a conversion is a file path or a buffer of encoded image bytes.
\<close>

datatype input = Path jsstring | Buffer "8 word list"

text \<open>
  What the code calls outside this repository is a parameter of the model: the file
  system, the \<open>path\<close> module, the image library and the clock.
  \<^item> \<open>access p\<close>: \<open>fs.access(p, R_OK)\<close> resolves;
  \<^item> \<open>extname\<close>, \<open>toLowerCase\<close>: \<open>path.extname\<close> and \<open>String.prototype.toLowerCase\<close>;
  \<^item> \<open>sharpMetadata\<close>: \<open>sharp(input).metadata()\<close>, the width and height of the image;
  \<^item> \<open>sharpResize input w h\<close>: the chain \<open>resize(w, h, ...).grayscale().raw().toBuffer(...)\<close>,
    yielding \<open>data\<close>, \<open>info.width\<close> and \<open>info.height\<close>;
  \<^item> \<open>writeFile\<close> and \<open>stat\<close>: \<open>fs.writeFile\<close> (\<open>None\<close> when it succeeds) and the size
    that \<open>fs.stat\<close> reports;
  \<^item> \<open>dateNow k\<close>: what the \<open>k\<close>-th call of \<open>Date.now()\<close> returns;
  \<^item> \<open>numberToString\<close>, \<open>bufferToString\<close>: the string conversions of a number and of a
    \<open>Buffer\<close> inside a template literal.
\<close>

record world =
  access :: "jsstring \<Rightarrow> bool"
  extname :: "jsstring \<Rightarrow> jsstring"
  toLowerCase :: "jsstring \<Rightarrow> jsstring"
  sharpMetadata :: "input \<Rightarrow> error + nat \<times> nat"
  sharpResize :: "input \<Rightarrow> jsval \<Rightarrow> jsval \<Rightarrow> error + 8 word list \<times> nat \<times> nat"
  writeFile :: "jsstring \<Rightarrow> jsstring \<Rightarrow> error option"
  stat :: "jsstring \<Rightarrow> error + nat"
  dateNow :: "nat \<Rightarrow> int"
  numberToString :: "real \<Rightarrow> jsstring"
  bufferToString :: "8 word list \<Rightarrow> jsstring"

definition supportedExtensions :: "jsstring list" where
  "supportedExtensions = map ascii
    [''.jpg'', ''.jpeg'', ''.png'', ''.webp'', ''.gif'', ''.tiff'', ''.tif'', ''.bmp'',
     ''.svg'', ''.avif'', ''.heif'', ''.heic'']"

definition isSupportedImageFormat :: "world \<Rightarrow> jsstring \<Rightarrow> bool" where
  "isSupportedImageFormat w filePath =
    (let ext = toLowerCase w (extname w filePath) in ext \<in> set supportedExtensions)"

text \<open>\<open>String.prototype.includes\<close>\<close>

fun includesStr :: "jsstring \<Rightarrow> jsstring \<Rightarrow> bool" where
  "includesStr [] needle = (needle = [])"
| "includesStr (c # cs) needle = (take (length needle) (c # cs) = needle \<or> includesStr cs needle)"

text \<open>\<open>${input}\<close> in a template literal\<close>

fun inputToString :: "world \<Rightarrow> input \<Rightarrow> jsstring" where
  "inputToString w (Path p) = p"
| "inputToString w (Buffer b) = bufferToString w b"

text \<open>
  \<open>Math.floor((imgHeight / imgWidth) * targetWidth * opts.aspectRatio)\<close>, for a width and
  an aspect ratio that have passed \<open>validateOptions\<close>: each is a positive number or NaN.
  The quotient and the two products are rounded to doubles one after the other.
\<close>

definition targetHeightOf :: "nat \<Rightarrow> nat \<Rightarrow> jsval \<Rightarrow> jsval \<Rightarrow> jsval" where
  "targetHeightOf imgWidth imgHeight targetWidth aspectRatio =
    (case (targetWidth, aspectRatio) of
       (JNum tw, JNum a) \<Rightarrow>
         if imgWidth = 0 then (if imgHeight = 0 then JNaN else JInf True)
         else JNum (of_int \<lfloor>roundDouble (roundDouble
                      (roundDouble (real imgHeight / real imgWidth) * tw) * a)\<rfloor>)
     | _ \<Rightarrow> JNaN)"

text \<open>The \<open>try\<close> block of \<open>convertToAscii\<close> (lines 32 to 86).\<close>

definition convertTry :: "world \<Rightarrow> input \<Rightarrow> options \<Rightarrow> error + jsstring" where
  "convertTry w input opts =
    (case getCharset (numberToString w) (getProp opts ''charset'') of
       Inl e \<Rightarrow> Inl e
     | Inr charset \<Rightarrow>
        (case sharpMetadata w input of
           Inl e \<Rightarrow> Inl e
         | Inr (imgWidth, imgHeight) \<Rightarrow>
            (let targetWidth = getProp opts ''width'';
                 targetHeight = targetHeightOf imgWidth imgHeight targetWidth
                                  (getProp opts ''aspectRatio'')
             in case sharpResize w input targetWidth targetHeight of
                  Inl e \<Rightarrow> Inl e
                | Inr (data, width, height) \<Rightarrow>
                    Inr (pixelsToAscii opts charset data width height))))"

text \<open>The \<open>catch\<close> block of \<open>convertToAscii\<close> (lines 87 to 101): it always throws.\<close>

definition convertCatch :: "world \<Rightarrow> input \<Rightarrow> error \<Rightarrow> error" where
  "convertCatch w input err =
    (if includesStr (message err) (ascii ''Input file is missing'')
     then Error (ascii ''Unable to read image file: '' @ inputToString w input)
     else if includesStr (message err) (ascii ''Input file contains unsupported image format'')
     then Error (ascii ''Unsupported or corrupted image format: '' @ inputToString w input)
     else Error (ascii ''Image conversion failed: '' @ message err))"

text \<open>
  Lines 21 to 29: a path must name a readable file with a supported extension; a buffer
  is not checked.
\<close>

definition checkInput :: "world \<Rightarrow> input \<Rightarrow> error option" where
  "checkInput w input =
    (case input of
       Path p \<Rightarrow>
         if \<not> access w p then Some (Error (ascii ''File not found: '' @ p))
         else if \<not> isSupportedImageFormat w p
         then Some (Error (ascii ''Unsupported image format: '' @ p))
         else None
     | Buffer b \<Rightarrow> None)"

text \<open>
  \<open>convertToAscii\<close>: the errors of the validation and of the input check reach the
  caller as they are, an error of the \<open>try\<close> block is replaced by the one the \<open>catch\<close>
  block throws.
\<close>

definition convertToAscii :: "world \<Rightarrow> input \<Rightarrow> options \<Rightarrow> error + jsstring" where
  "convertToAscii w input options =
    (case validateOptions options of
       Inl e \<Rightarrow> Inl e
     | Inr opts \<Rightarrow>
        (case checkInput w input of
           Some e \<Rightarrow> Inl e
         | None \<Rightarrow>
            (case convertTry w input opts of
               Inl err \<Rightarrow> Inl (convertCatch w input err)
             | Inr asciiArt \<Rightarrow> Inr asciiArt)))"


text \<open>\<open>String.prototype.split\<close> with a separator of one code unit.\<close>

fun splitOn :: "16 word \<Rightarrow> jsstring \<Rightarrow> jsstring list" where
  "splitOn sep [] = [[]]"
| "splitOn sep (c # cs) =
    (if c = sep then [] # splitOn sep cs
     else (c # hd (splitOn sep cs)) # tl (splitOn sep cs))"

text \<open>
  The object \<open>convertAndSave\<close> returns. The fields that only one of its two object
  literals sets are optional.
\<close>

record result =
  success :: bool
  inputFile :: jsstring
  outputFile :: jsstring
  fileSize :: "nat option"
  processingTime :: int
  lines :: "nat option"
  characters :: "nat option"
  error :: "jsstring option"



text \<open>
  \<open>Array.prototype.slice(0, n)\<close> for an integer \<open>n\<close>: a negative \<open>n\<close> counts from the
  end.
\<close>

definition sliceTo :: "int \<Rightarrow> 'a list \<Rightarrow> 'a list" where
  "sliceTo n xs =
    (if n < 0 then take (nat (max (int (length xs) + n) 0)) xs else take (nat n) xs)"

text \<open>Lines 191 to 196 of \<open>previewAscii\<close>, on the text that \<open>convertToAscii\<close> returned.\<close>

definition previewOf :: "jsstring \<Rightarrow> int \<Rightarrow> jsstring" where
  "previewOf fullAscii previewLines =
    (let lines = splitOn newline fullAscii
     in joinWith [newline] (sliceTo previewLines lines)
        @ (if int (length lines) > previewLines
           then newline # ascii ''... (truncated)'' else []))"

definition previewAscii :: "world \<Rightarrow> input \<Rightarrow> options \<Rightarrow> int \<Rightarrow> error + jsstring" where
  "previewAscii w input options previewLines =
    (case convertToAscii w input options of
       Inl e \<Rightarrow> Inl e
     | Inr fullAscii \<Rightarrow> Inr (previewOf fullAscii previewLines))"

section \<open>Auxiliary definitions for the statements\<close>

text \<open>The text of row \<open>y\<close>: what one run of the inner loop appends.\<close>

definition asciiRow :: "options \<Rightarrow> propval \<Rightarrow> 8 word list \<Rightarrow> nat \<Rightarrow> nat \<Rightarrow> jsstring" where
  "asciiRow opts charset data width y =
    concat (map (\<lambda>x. pixelChar opts charset data (y * width + x)) [0..<width])"

text \<open>
  The glyph position as the specification words it (section 4.4, steps 1 to 5), for a
  pixel intensity \<open>v\<close>, a charset of \<open>N\<close> glyphs, a contrast and an invert flag, in a given
  arithmetic: normalise, raise to the power \<open>1 / contrast\<close>, clamp to the unit interval,
  invert, take \<open>idx = floor (b' * (N - 1))\<close> and select position \<open>N - 1 - idx\<close>.
\<close>

definition specGlyphPosition :: "arith \<Rightarrow> real \<Rightarrow> bool \<Rightarrow> nat \<Rightarrow> nat \<Rightarrow> int" where
  "specGlyphPosition a contrast invert N v =
    (let b = fdiv a (real v) 255;
         b1 = fpow a b (fdiv a 1 contrast);
         b2 = max 0 (min 1 b1);
         b3 = (if invert then fsub a 1 b2 else b2);
         idx = \<lfloor>fmul a b3 (real (N - 1))\<rfloor>
     in int N - 1 - idx)"


text \<open>
  The position in the charset that the loop body reads for a pixel, as an integer:
  \<open>charset.length - 1 - charIndex\<close>. A NaN brightness gives no position; \<open>-1\<close> stands
  for it.
\<close>

definition glyphPosition :: "options \<Rightarrow> jsstring \<Rightarrow> 8 word list \<Rightarrow> nat \<Rightarrow> int" where
  "glyphPosition opts cs data pixelIndex =
    (case adjustBrightness (getProp opts ''contrast'') data pixelIndex of
       Some b \<Rightarrow> int (length cs) - 1
                  - \<lfloor>(if truthy (getProp opts ''invert'') then 1 - b else b) * (real (length cs) - 1)\<rfloor>
     | None \<Rightarrow> -1)"

text \<open>
  A world for concrete runs: every file operation succeeds, the image has the given
  dimensions and the same intensity \<open>v\<close> at every pixel, so the grid resampled to the
  requested size is uniform too. The clock advances by one between two readings.
\<close>

definition uniformWorld :: "nat \<times> nat \<Rightarrow> 8 word \<Rightarrow> world" where
  "uniformWorld dims v =
    \<lparr>access = (\<lambda>p. True),
     extname = (\<lambda>p. ascii ''.png''),
     toLowerCase = (\<lambda>s. s),
     sharpMetadata = (\<lambda>i. Inr dims),
     sharpResize = (\<lambda>i tw th.
        case (tw, th) of
          (JNum a, JNum b) \<Rightarrow> Inr (replicate (nat \<lfloor>a\<rfloor> * nat \<lfloor>b\<rfloor>) v, nat \<lfloor>a\<rfloor>, nat \<lfloor>b\<rfloor>)
        | _ \<Rightarrow> Inl (Error (ascii ''Expected positive integer''))),
     writeFile = (\<lambda>p c. None),
     stat = (\<lambda>p. Inr 3240),
     dateNow = (\<lambda>k. int k),
     numberToString = (\<lambda>x. ascii ''0''),
     bufferToString = (\<lambda>b. [])\<rparr>"

declare rowLoop.simps [simp del] pixelLoop.simps [simp del]

section \<open>Double arithmetic: properties\<close>

text \<open>With the exact arithmetic the loop body is the one the loops use.\<close>

lemma adjustBrightnessIn_exact:
  "adjustBrightnessIn exactArith contrast data pixelIndex = adjustBrightness contrast data pixelIndex"
  by (cases contrast) (simp_all add: adjustBrightnessIn_def adjustBrightness_def exactArith_def)

lemma brightnessToCharIn_exact:
  "brightnessToCharIn exactArith invert charset brightness = brightnessToChar invert charset brightness"
  by (cases charset; cases brightness)
     (simp_all add: brightnessToCharIn_def brightnessToChar_def exactArith_def)

lemma pixelCharIn_exact:
  "pixelCharIn exactArith opts charset data pixelIndex = pixelChar opts charset data pixelIndex"
  by (simp add: pixelCharIn_def pixelChar_def adjustBrightnessIn_exact brightnessToCharIn_exact)



lemma roundEven_of_int: "roundEven (of_int n) = n"
  by (simp add: roundEven_def)

lemma exponent_bounds:
  fixes x :: real
  assumes "0 < x"
  shows "2 powr of_int \<lfloor>log 2 x\<rfloor> \<le> x" "x < 2 powr (of_int \<lfloor>log 2 x\<rfloor> + 1)"
proof -
  have lo: "of_int \<lfloor>log 2 x\<rfloor> \<le> log 2 x" by simp
  have "(of_int \<lfloor>log 2 x\<rfloor> \<le> log 2 x) = (2 powr of_int \<lfloor>log 2 x\<rfloor> \<le> x)"
    by (rule le_log_iff) (use assms in simp_all)
  with lo show "2 powr of_int \<lfloor>log 2 x\<rfloor> \<le> x" by blast
  have hi: "log 2 x < of_int \<lfloor>log 2 x\<rfloor> + 1" by linarith
  have "(log 2 x < of_int \<lfloor>log 2 x\<rfloor> + 1) = (x < 2 powr (of_int \<lfloor>log 2 x\<rfloor> + 1))"
    by (rule log_less_iff) (use assms in simp_all)
  with hi show "x < 2 powr (of_int \<lfloor>log 2 x\<rfloor> + 1)" by blast
qed

lemma exponent_unique:
  fixes x :: real
  assumes "0 < x" "2 powr of_int e \<le> x" "x < 2 powr (of_int e + 1)"
  shows "\<lfloor>log 2 x\<rfloor> = e"
proof -
  have "of_int e \<le> log 2 x" using assms by (simp add: le_log_iff)
  moreover have "log 2 x < of_int e + 1" using assms by (simp add: log_less_iff)
  ultimately show ?thesis by (simp add: floor_eq_iff)
qed

lemma roundDouble_eval:
  assumes "0 < x" "2 powr of_int e \<le> x" "x < 2 powr (of_int e + 1)"
  shows "roundDouble x = 2 powr (of_int e - 52) * of_int (roundEven (x / 2 powr (of_int e - 52)))"
  using assms exponent_unique[OF assms] by (simp add: roundDouble_def Let_def)



lemma roundDouble_nat:
  assumes "n < 2 ^ 53"
  shows "roundDouble (real n) = real n"
proof (cases "n = 0")
  case True then show ?thesis by (simp add: roundDouble_def)
next
  case False
  then have pos: "0 < real n" by simp
  define e where "e = \<lfloor>log 2 (real n)\<rfloor>"
  define ulp :: real where "ulp = 2 powr (of_int e - 52)"
  have ulp: "0 < ulp" by (simp add: ulp_def)
  from exponent_bounds(1)[OF pos] have "2 powr of_int e \<le> real n" by (simp add: e_def)
  also have "real n < 2 ^ 53" using assms by (metis of_nat_less_iff of_nat_numeral of_nat_power)
  also have "(2::real) ^ 53 = 2 powr 53" by simp
  finally have "2 powr of_int e < (2::real) powr 53" .
  then have "of_int e < (53::real)" by (rule powr_less_cancel) simp
  then have e52: "e \<le> 52" by linarith
  have "(2::real) powr of_int (52 - e) = 2 ^ nat (52 - e)"
    using e52 by (simp add: powr_int del: of_int_diff)
  moreover have "1 / ulp = 2 powr of_int (52 - e)"
    by (simp add: ulp_def powr_diff)
  ultimately have inv: "1 / ulp = 2 ^ nat (52 - e)" by simp
  have "real n / ulp = real n * (1 / ulp)" by simp
  then have "real n / ulp = real n * 2 ^ nat (52 - e)" by (simp only: inv)
  then have grid: "real n / ulp = of_int (int n * 2 ^ nat (52 - e))" by simp
  have "roundDouble (real n) = ulp * of_int (roundEven (real n / ulp))"
    using pos by (simp add: roundDouble_def Let_def e_def ulp_def)
  also have "\<dots> = ulp * (real n / ulp)"
    by (simp only: grid roundEven_of_int)
  also have "\<dots> = real n" using ulp by simp
  finally show ?thesis .
qed

lemma roundDouble_numeral:
  "numeral k < (2::nat) ^ 53 \<Longrightarrow> roundDouble (numeral k) = numeral k"
  using roundDouble_nat[of "numeral k"] by simp

lemma roundDouble_one: "roundDouble 1 = 1"
  using roundDouble_nat[of 1] by simp



text \<open>
  The rounding shows in the target height: for an image of 100 by 57 pixels, width 100
  and aspect ratio 1 the exact product is 57, the rounded one lies just below.
\<close>

lemma targetHeightOf_rounds: "targetHeightOf 100 57 (JNum 100) (JNum 1) = JNum 56"
proof -
  have a: "roundDouble (57 / 100) = 5134103575202365 / 9007199254740992"
    by (subst roundDouble_eval[where e = "-1"])
       (simp_all add: roundEven_def Let_def powr_neg_numeral)
  have b: "roundDouble (5134103575202365 / 9007199254740992 * 100) = 8022036836253695 / 140737488355328"
    by (subst roundDouble_eval[where e = 5])
       (simp_all add: roundEven_def Let_def powr_neg_numeral)
  have c: "roundDouble (8022036836253695 / 140737488355328) = 8022036836253695 / 140737488355328"
    by (subst roundDouble_eval[where e = 5])
       (simp_all add: roundEven_def Let_def powr_neg_numeral)
  have "\<lfloor>roundDouble (roundDouble (roundDouble (57 / 100) * 100) * 1)\<rfloor> = 56"
    by (simp only: a b c mult_1_right) simp
  then show ?thesis by (simp add: targetHeightOf_def)
qed


section \<open>Option validation: properties\<close>

text \<open>
  C5. \<open>validateOptions({})\<close> returns exactly the documented defaults (width 80, charset
  "detailed", contrast 1.2, aspect ratio 0.5, invert false); whenever validation succeeds
  its result is the supplied fields merged over the defaults; and each of width 5,
  width 600, contrast 0.05, contrast 6.0, aspect ratio 0.05 and aspect ratio 3.0 makes
  validation fail with the error of the offending field instead of clamping the value.
\<close>

theorem validateOptions_defaults_merge_ranges:
  "validateOptions Map.empty = Inr defaults
   \<and> getProp defaults ''width'' = JNum 80
   \<and> getProp defaults ''charset'' = JStr (ascii ''detailed'')
   \<and> getProp defaults ''contrast'' = JNum 1.2
   \<and> getProp defaults ''aspectRatio'' = JNum 0.5
   \<and> getProp defaults ''invert'' = JBool False
   \<and> (\<forall>opts validated. validateOptions opts = Inr validated \<longrightarrow> validated = defaults ++ opts)
   \<and> validateOptions [''width'' \<mapsto> JNum 5]
         = Inl (Error (ascii ''Width must be a number between 10 and 500''))
   \<and> validateOptions [''width'' \<mapsto> JNum 600]
         = Inl (Error (ascii ''Width must be a number between 10 and 500''))
   \<and> validateOptions [''contrast'' \<mapsto> JNum 0.05]
         = Inl (Error (ascii ''Contrast must be a number between 0.1 and 5.0''))
   \<and> validateOptions [''contrast'' \<mapsto> JNum 6.0]
         = Inl (Error (ascii ''Contrast must be a number between 0.1 and 5.0''))
   \<and> validateOptions [''aspectRatio'' \<mapsto> JNum 0.05]
         = Inl (Error (ascii ''Aspect ratio must be a number between 0.1 and 2.0''))
   \<and> validateOptions [''aspectRatio'' \<mapsto> JNum 3.0]
         = Inl (Error (ascii ''Aspect ratio must be a number between 0.1 and 2.0''))"
proof -
  have merge: "\<forall>opts validated. validateOptions opts = Inr validated \<longrightarrow> validated = defaults ++ opts"
    by (auto simp: validateOptions_def Let_def split: if_splits)
  have dflt: "validateOptions Map.empty = Inr defaults"
    by (simp add: validateOptions_def defaults_def getProp_def)
  have fields: "getProp defaults ''width'' = JNum 80"
    "getProp defaults ''charset'' = JStr (ascii ''detailed'')"
    "getProp defaults ''contrast'' = JNum 1.2"
    "getProp defaults ''aspectRatio'' = JNum 0.5"
    "getProp defaults ''invert'' = JBool False"
    by (simp_all add: defaults_def getProp_def)
  have bad: "validateOptions [''width'' \<mapsto> JNum 5]
         = Inl (Error (ascii ''Width must be a number between 10 and 500''))"
    "validateOptions [''width'' \<mapsto> JNum 600]
         = Inl (Error (ascii ''Width must be a number between 10 and 500''))"
    "validateOptions [''contrast'' \<mapsto> JNum 0.05]
         = Inl (Error (ascii ''Contrast must be a number between 0.1 and 5.0''))"
    "validateOptions [''contrast'' \<mapsto> JNum 6.0]
         = Inl (Error (ascii ''Contrast must be a number between 0.1 and 5.0''))"
    "validateOptions [''aspectRatio'' \<mapsto> JNum 0.05]
         = Inl (Error (ascii ''Aspect ratio must be a number between 0.1 and 2.0''))"
    "validateOptions [''aspectRatio'' \<mapsto> JNum 3.0]
         = Inl (Error (ascii ''Aspect ratio must be a number between 0.1 and 2.0''))"
    by (simp_all add: validateOptions_def defaults_def getProp_def)
  from merge dflt fields bad show ?thesis by blast
qed

text \<open>
  The merge at the input of the repository's own test: width 100 and charset "blocks"
  are taken over, the contrast keeps its default.
\<close>

theorem validateOptions_merge_witness:
  "validateOptions [''width'' \<mapsto> JNum 100, ''charset'' \<mapsto> JStr (ascii ''blocks'')]
     = Inr (defaults ++ [''width'' \<mapsto> JNum 100, ''charset'' \<mapsto> JStr (ascii ''blocks'')])
   \<and> getProp (defaults ++ [''width'' \<mapsto> JNum 100, ''charset'' \<mapsto> JStr (ascii ''blocks'')])
         ''contrast'' = JNum 1.2"
proof -
  have ok: "validateOptions [''width'' \<mapsto> JNum 100, ''charset'' \<mapsto> JStr (ascii ''blocks'')]
     = Inr ((defaults(''width'' \<mapsto> JNum 100))(''charset'' \<mapsto> JStr (ascii ''blocks'')))"
    by (simp add: validateOptions_def defaults_def getProp_def)
  from validateOptions_defaults_merge_ranges
  have "\<forall>opts validated. validateOptions opts = Inr validated \<longrightarrow> validated = defaults ++ opts"
    by blast
  with ok have "(defaults(''width'' \<mapsto> JNum 100))(''charset'' \<mapsto> JStr (ascii ''blocks''))
     = defaults ++ [''width'' \<mapsto> JNum 100, ''charset'' \<mapsto> JStr (ascii ''blocks'')]"
    by blast
  with ok show ?thesis by (simp add: getProp_def defaults_def)
qed

section \<open>The pixel loops\<close>

lemma rowLoop_eq:
  "rowLoop opts charset data width y x asciiArt =
     asciiArt @ concat (map (\<lambda>x. pixelChar opts charset data (y * width + x)) [x..<width])"
proof (induction opts charset data width y x asciiArt rule: rowLoop.induct)
  case (1 opts charset data width y x asciiArt)
  show ?case
  proof (cases "x < width")
    case True
    with 1 show ?thesis
      by (subst rowLoop.simps) (simp add: upt_conv_Cons)
  next
    case False
    then show ?thesis by (subst rowLoop.simps) simp
  qed
qed

lemma pixelLoop_eq:
  "pixelLoop opts charset data width height y asciiArt =
     asciiArt @ concat (map (\<lambda>y. asciiRow opts charset data width y @ [newline]) [y..<height])"
proof (induction opts charset data width height y asciiArt rule: pixelLoop.induct)
  case (1 opts charset data width height y asciiArt)
  show ?case
  proof (cases "y < height")
    case True
    with 1 show ?thesis
      by (subst pixelLoop.simps) (simp add: upt_conv_Cons rowLoop_eq asciiRow_def)
  next
    case False
    then show ?thesis by (subst pixelLoop.simps) simp
  qed
qed

lemma pixelsToAscii_rows:
  "pixelsToAscii opts charset data width height =
     concat (map (\<lambda>r. r @ [newline]) (map (asciiRow opts charset data width) [0..<height]))"
  by (simp add: pixelsToAscii_def pixelLoop_eq comp_def)

lemma adjustBrightness_Some:
  assumes "pixelIndex < length data"
  shows "adjustBrightness (JNum c) data pixelIndex
           = Some (max 0 (min 1 ((real (unat (data ! pixelIndex)) / 255) powr (1 / c))))"
  using assms by (simp add: adjustBrightness_def Let_def)

lemma char_position_range:
  fixes b :: real
  assumes "0 \<le> b" "b \<le> 1" "1 \<le> n"
  shows "0 \<le> int n - 1 - \<lfloor>b * (real n - 1)\<rfloor>" "int n - 1 - \<lfloor>b * (real n - 1)\<rfloor> < int n"
proof -
  have nn: "0 \<le> real n - 1" using assms by simp
  have "b * (real n - 1) \<le> 1 * (real n - 1)"
    using assms nn by (intro mult_right_mono) auto
  then have "b * (real n - 1) \<le> real n - 1" by simp
  then have "\<lfloor>b * (real n - 1)\<rfloor> \<le> \<lfloor>real n - 1\<rfloor>" by (rule floor_mono)
  also have "\<lfloor>real n - 1\<rfloor> = int n - 1" by (simp add: floor_eq_iff) 
  finally show "0 \<le> int n - 1 - \<lfloor>b * (real n - 1)\<rfloor>" by simp
  have "0 \<le> b * (real n - 1)" using assms nn by simp
  then have "0 \<le> \<lfloor>b * (real n - 1)\<rfloor>" by simp
  then show "int n - 1 - \<lfloor>b * (real n - 1)\<rfloor> < int n" by linarith
qed

lemma brightnessToChar_in_range:
  assumes "0 \<le> b" "b \<le> 1" "1 \<le> length cs"
  shows "brightnessToChar invert (PStr cs) (Some b)
           = [cs ! nat (int (length cs) - 1
                 - \<lfloor>(if truthy invert then 1 - b else b) * (real (length cs) - 1)\<rfloor>)]"
proof -
  let ?b = "if truthy invert then 1 - b else b"
  have "0 \<le> ?b" "?b \<le> 1" using assms by auto
  from char_position_range[OF this assms(3)]
  show ?thesis by (simp add: brightnessToChar_def Let_def)
qed












lemma position_204_exact: "specGlyphPosition exactArith 1 True 11 204 = 8"
  by (simp add: specGlyphPosition_def exactArith_def Let_def)


section \<open>Shape and safety of the mapping stage\<close>

lemma registered_charset:
  assumes "(name, cs) \<in> set CHARSETS"
  shows "2 \<le> length cs" "newline \<notin> set cs"
  using assms by (auto simp: CHARSETS_def ascii_def newline_def)

lemma pixel_index_in_grid:
  fixes x y width height :: nat
  assumes "x < width" "y < height"
  shows "y * width + x < width * height"
proof -
  have "y * width + x < y * width + width" using assms(1) by simp
  also have "\<dots> = Suc y * width" by simp
  also have "\<dots> \<le> height * width" using assms(2) by (intro mult_le_mono1) simp
  finally show ?thesis by (simp add: mult.commute)
qed

lemma adjustBrightness_unit:
  assumes "adjustBrightness contrast data pixelIndex = Some b"
  shows "0 \<le> b" "b \<le> 1"
  using assms by (auto simp: adjustBrightness_def Let_def split: jsval.splits if_splits)

lemma pixelChar_glyph:
  assumes "pixelIndex < length data" "getProp opts ''contrast'' = JNum c" "1 \<le> length cs"
  shows "pixelChar opts (PStr cs) data pixelIndex = [cs ! nat (glyphPosition opts cs data pixelIndex)]"
    and "0 \<le> glyphPosition opts cs data pixelIndex"
    and "glyphPosition opts cs data pixelIndex < int (length cs)"
proof -
  obtain b where b: "adjustBrightness (getProp opts ''contrast'') data pixelIndex = Some b"
    using assms(1,2) by (simp add: adjustBrightness_Some)
  from adjustBrightness_unit[OF b] have u: "0 \<le> b" "b \<le> 1" .
  let ?b = "if truthy (getProp opts ''invert'') then 1 - b else b"
  have "0 \<le> ?b" "?b \<le> 1" using u by auto
  from char_position_range[OF this assms(3)]
  show "0 \<le> glyphPosition opts cs data pixelIndex"
    and "glyphPosition opts cs data pixelIndex < int (length cs)"
    by (simp_all add: glyphPosition_def b)
  show "pixelChar opts (PStr cs) data pixelIndex = [cs ! nat (glyphPosition opts cs data pixelIndex)]"
    using brightnessToChar_in_range[OF u assms(3)]
    by (simp add: pixelChar_def b glyphPosition_def)
qed



lemma asciiRow_map:
  assumes "length data = width * height" "y < height" "getProp opts ''contrast'' = JNum c"
    "1 \<le> length cs"
  shows "asciiRow opts (PStr cs) data width y
     = map (\<lambda>x. cs ! nat (glyphPosition opts cs data (y * width + x))) [0..<width]"
proof -
  have "map (\<lambda>x. pixelChar opts (PStr cs) data (y * width + x)) [0..<width]
      = map (\<lambda>x. [cs ! nat (glyphPosition opts cs data (y * width + x))]) [0..<width]"
  proof (rule map_cong[OF refl])
    fix x assume "x \<in> set [0..<width]"
    then have "x < width" by simp
    from pixel_index_in_grid[OF this assms(2)] assms(1)
    have "y * width + x < length data" by simp
    from pixelChar_glyph(1)[OF this assms(3,4)]
    show "pixelChar opts (PStr cs) data (y * width + x)
        = [cs ! nat (glyphPosition opts cs data (y * width + x))]" .
  qed
  then show ?thesis
    unfolding asciiRow_def by (simp only: concat_map_singleton)
qed

lemma asciiRow_props:
  assumes "length data = width * height" "y < height" "getProp opts ''contrast'' = JNum c"
    "1 \<le> length cs"
  shows "length (asciiRow opts (PStr cs) data width y) = width"
    and "set (asciiRow opts (PStr cs) data width y) \<subseteq> set cs"
proof -
  note m = asciiRow_map[OF assms]
  show "length (asciiRow opts (PStr cs) data width y) = width" by (simp add: m)
  show "set (asciiRow opts (PStr cs) data width y) \<subseteq> set cs"
  proof
    fix g assume "g \<in> set (asciiRow opts (PStr cs) data width y)"
    then obtain x where x: "x < width" and g: "g = cs ! nat (glyphPosition opts cs data (y * width + x))"
      by (auto simp: m)
    from pixel_index_in_grid[OF x assms(2)] assms(1)
    have "y * width + x < length data" by simp
    from pixelChar_glyph(2,3)[OF this assms(3,4)]
    have "nat (glyphPosition opts cs data (y * width + x)) < length cs" by simp
    then show "g \<in> set cs" unfolding g by (rule nth_mem)
  qed
qed

lemma splitOn_line:
  assumes "sep \<notin> set r"
  shows "splitOn sep (r @ sep # rest) = r # splitOn sep rest"
  using assms by (induction r) auto

lemma splitOn_rows:
  assumes "\<forall>r \<in> set rows. sep \<notin> set r"
  shows "splitOn sep (concat (map (\<lambda>r. r @ [sep]) rows)) = rows @ [[]]"
  using assms by (induction rows) (auto simp: splitOn_line)

text \<open>
  C3. For a pixel buffer of \<open>width * height\<close> bytes, a registered charset and a contrast
  between 0.1 and 5, the output is \<open>height\<close> rows of exactly \<open>width\<close> glyphs of the
  charset, each followed by a line break, the last one included; splitting the output at
  the line breaks yields these rows followed by one empty string, and for a positive
  width the non-empty parts are exactly the rows.
\<close>

theorem pixelsToAscii_shape:
  assumes "length data = width * height"
      and "(name, cs) \<in> set CHARSETS"
      and "getProp opts ''contrast'' = JNum c" and "0.1 \<le> c" and "c \<le> 5"
  shows "\<exists>rows. length rows = height
      \<and> (\<forall>r \<in> set rows. length r = width \<and> newline \<notin> set r \<and> set r \<subseteq> set cs)
      \<and> pixelsToAscii opts (PStr cs) data width height = concat (map (\<lambda>r. r @ [newline]) rows)
      \<and> splitOn newline (pixelsToAscii opts (PStr cs) data width height) = rows @ [[]]
      \<and> (0 < width \<longrightarrow>
           filter (\<lambda>l. l \<noteq> []) (splitOn newline (pixelsToAscii opts (PStr cs) data width height))
             = rows)"
proof -
  let ?rows = "map (asciiRow opts (PStr cs) data width) [0..<height]"
  have len1: "1 \<le> length cs" using registered_charset(1)[OF assms(2)] by simp
  have rows: "length r = width \<and> newline \<notin> set r \<and> set r \<subseteq> set cs"
    if "r \<in> set ?rows" for r
  proof -
    from that obtain y where y: "y < height" and r: "r = asciiRow opts (PStr cs) data width y"
      by auto
    note p = asciiRow_props[OF assms(1) y assms(3) len1]
    with registered_charset(2)[OF assms(2)] show ?thesis unfolding r by auto
  qed
  have out: "pixelsToAscii opts (PStr cs) data width height = concat (map (\<lambda>r. r @ [newline]) ?rows)"
    by (rule pixelsToAscii_rows)
  have sp: "splitOn newline (pixelsToAscii opts (PStr cs) data width height) = ?rows @ [[]]"
    unfolding out by (rule splitOn_rows) (use rows in blast)
  have fl: "filter (\<lambda>l. l \<noteq> []) (splitOn newline (pixelsToAscii opts (PStr cs) data width height)) = ?rows"
    if "0 < width"
  proof -
    have "r \<noteq> []" if "r \<in> set ?rows" for r
      using rows[OF that] \<open>0 < width\<close> by auto
    then have "filter (\<lambda>l. l \<noteq> []) ?rows = ?rows"
      by (intro filter_True) blast
    then show ?thesis unfolding sp by simp
  qed
  show ?thesis
    by (rule exI[of _ ?rows]) (use rows out sp fl in simp)
qed

text \<open>The same two-pixel row: one line of two glyphs, then the empty string.\<close>

theorem pixelsToAscii_shape_witness:
  "length (splitOn newline (pixelsToAscii defaults (PStr [0x2588, 0x20]) [0, 255] 2 1)) = 2
   \<and> length (hd (splitOn newline (pixelsToAscii defaults (PStr [0x2588, 0x20]) [0, 255] 2 1))) = 2"
proof -
  have reg: "(ascii ''binary'', [0x2588, 0x20]) \<in> set CHARSETS"
    by (simp add: CHARSETS_def)
  have c: "getProp defaults ''contrast'' = JNum 1.2"
    by (simp add: getProp_def defaults_def)
  from pixelsToAscii_shape[of "[0, 255]" 2 1 "ascii ''binary''" "[0x2588, 0x20]" defaults "1.2", OF _ reg c]
  obtain rows where rows: "length rows = 1" "\<forall>r \<in> set rows. length r = 2"
    and sp: "splitOn newline (pixelsToAscii defaults (PStr [0x2588, 0x20]) [0, 255] 2 1) = rows @ [[]]"
    by auto
  from rows obtain r where "rows = [r]" "length r = 2"
    by (cases rows) auto
  with sp show ?thesis by simp
qed

section \<open>The end-to-end test image\<close>

lemma glyph_white:
  assumes "pixelIndex < length data" "data ! pixelIndex = 255"
    "getProp opts ''contrast'' = JNum c" "\<not> truthy (getProp opts ''invert'')" "1 \<le> length cs"
  shows "glyphPosition opts cs data pixelIndex = 0"
  using assms by (simp add: glyphPosition_def adjustBrightness_Some)

lemma glyph_black:
  assumes "pixelIndex < length data" "data ! pixelIndex = 0"
    "getProp opts ''contrast'' = JNum c" "\<not> truthy (getProp opts ''invert'')" "1 \<le> length cs"
  shows "glyphPosition opts cs data pixelIndex = int (length cs) - 1"
  using assms by (simp add: glyphPosition_def adjustBrightness_Some)

text \<open>
  At a white and at a black pixel the rounding plays no part: the loop body in doubles
  emits what the loop body in exact arithmetic emits, for every \<open>Math.pow\<close> that gives
  1 for the base 1 and 0 for the base 0 at the exponent in use.
\<close>

lemma roundDouble_length_minus_1:
  assumes "1 \<le> length cs" "length cs < 2 ^ 53"
  shows "roundDouble (real (length cs) - 1) = real (length cs) - 1"
proof -
  have "length cs - 1 < 2 ^ 53" using assms(2) by simp
  from roundDouble_nat[OF this] assms(1) show ?thesis by (simp add: of_nat_diff)
qed

lemma roundedArith_ops:
  "fdiv (roundedArith pw) x y = roundDouble (x / y)"
  "fpow (roundedArith pw) x y = pw x y"
  "fsub (roundedArith pw) x y = roundDouble (x - y)"
  "fmul (roundedArith pw) x y = roundDouble (x * y)"
  by (simp_all add: roundedArith_def)

lemma pixelCharIn_white:
  assumes "pixelIndex < length data" "data ! pixelIndex = 255"
    "getProp opts ''contrast'' = JNum c" "1 \<le> length cs" "length cs < 2 ^ 53"
    "pw 1 (roundDouble (1 / c)) = 1"
  shows "pixelCharIn (roundedArith pw) opts (PStr cs) data pixelIndex
           = pixelChar opts (PStr cs) data pixelIndex"
proof -
  have l: "adjustBrightnessIn (roundedArith pw) (getProp opts ''contrast'') data pixelIndex = Some 1"
    using assms(1,2,3,6) by (simp add: adjustBrightnessIn_def roundedArith_ops roundDouble_one)
  have r: "adjustBrightness (getProp opts ''contrast'') data pixelIndex = Some 1"
    using assms(1,2,3) by (simp add: adjustBrightness_def)
  have z: "roundDouble 0 = 0" by (simp add: roundDouble_def)
  show ?thesis
    by (simp add: pixelCharIn_def pixelChar_def l r brightnessToCharIn_def brightnessToChar_def
          roundedArith_ops z roundDouble_length_minus_1[OF assms(4,5)])
qed

lemma pixelCharIn_black:
  assumes "pixelIndex < length data" "data ! pixelIndex = 0"
    "getProp opts ''contrast'' = JNum c" "1 \<le> length cs" "length cs < 2 ^ 53"
    "pw 0 (roundDouble (1 / c)) = 0"
  shows "pixelCharIn (roundedArith pw) opts (PStr cs) data pixelIndex
           = pixelChar opts (PStr cs) data pixelIndex"
proof -
  have z: "roundDouble 0 = 0" by (simp add: roundDouble_def)
  have l: "adjustBrightnessIn (roundedArith pw) (getProp opts ''contrast'') data pixelIndex = Some 0"
    using assms(1,2,3,6) by (simp add: adjustBrightnessIn_def roundedArith_ops z)
  have r: "adjustBrightness (getProp opts ''contrast'') data pixelIndex = Some 0"
    using assms(1,2,3) by (simp add: adjustBrightness_def)
  show ?thesis
    by (simp add: pixelCharIn_def pixelChar_def l r brightnessToCharIn_def brightnessToChar_def
          roundedArith_ops z roundDouble_one roundDouble_length_minus_1[OF assms(4,5)])
qed

lemma getCharset_simple:
  "getCharset f (JStr (ascii ''simple'')) = Inr (PStr [0x2588, 0x2588, 0x2593, 0x2592, 0x2591, 0x20])"
  by (simp add: getCharset_def lookupCharsets_def CHARSETS_def ascii_def)

lemma validate_test_options:
  "validateOptions [''width'' \<mapsto> JNum 20, ''charset'' \<mapsto> JStr (ascii ''simple'')]
     = Inr (defaults(''width'' \<mapsto> JNum 20, ''charset'' \<mapsto> JStr (ascii ''simple'')))"
  by (simp add: validateOptions_def defaults_def getProp_def)

text \<open>
  The repository's test converts a 100 by 100 image with width 20 and charset "simple".
  Validation fills in the aspect ratio 0.5, so the height requested from the resampler
  is 10, not 20; and under these options a white pixel is mapped to the full block
  U+2588, the first glyph of the charset, a black pixel to the space, its last glyph.
\<close>

theorem test_image_conversion_counterexample:
  "validateOptions [''width'' \<mapsto> JNum 20, ''charset'' \<mapsto> JStr (ascii ''simple'')]
     = Inr (defaults(''width'' \<mapsto> JNum 20, ''charset'' \<mapsto> JStr (ascii ''simple'')))
   \<and> targetHeightOf 100 100 (JNum 20) (getProp defaults ''aspectRatio'') = JNum 10
   \<and> pixelChar (defaults(''width'' \<mapsto> JNum 20, ''charset'' \<mapsto> JStr (ascii ''simple'')))
        (PStr [0x2588, 0x2588, 0x2593, 0x2592, 0x2591, 0x20]) [255] 0 = [0x2588]
   \<and> pixelChar (defaults(''width'' \<mapsto> JNum 20, ''charset'' \<mapsto> JStr (ascii ''simple'')))
        (PStr [0x2588, 0x2588, 0x2593, 0x2592, 0x2591, 0x20]) [0] 0 = [0x20]"
proof -
  have h: "targetHeightOf 100 100 (JNum 20) (getProp defaults ''aspectRatio'') = JNum 10"
    by (simp add: targetHeightOf_def getProp_def defaults_def roundDouble_numeral roundDouble_one)
  have w: "pixelChar (defaults(''width'' \<mapsto> JNum 20, ''charset'' \<mapsto> JStr (ascii ''simple'')))
        (PStr [0x2588, 0x2588, 0x2593, 0x2592, 0x2591, 0x20]) [255] 0 = [0x2588]"
    by (simp add: pixelChar_def adjustBrightness_def brightnessToChar_def getProp_def defaults_def)
  have b: "pixelChar (defaults(''width'' \<mapsto> JNum 20, ''charset'' \<mapsto> JStr (ascii ''simple'')))
        (PStr [0x2588, 0x2588, 0x2593, 0x2592, 0x2591, 0x20]) [0] 0 = [0x20]"
    by (simp add: pixelChar_def adjustBrightness_def brightnessToChar_def getProp_def defaults_def)
  from validate_test_options h w b show ?thesis by simp
qed

text \<open>
  C2, as the code has it. For a 100 by 100 image (a buffer, or a path that passes the
  input check) converted with width 20 and charset
  "simple" (the other options at their defaults, so the aspect ratio is 0.5), the code
  asks the resampler for a 20 by 10 grid; with the grid it returns, the output is 10 lines
  of 20 characters, every pixel of intensity 255 (white) renders as the first glyph of
  "simple", the full block U+2588, and every pixel of intensity 0 (black) as its last
  glyph, the space.
\<close>

theorem test_image_conversion_amended:
  assumes "checkInput w input = None"
      and "sharpMetadata w input = Inr (100, 100)"
      and "sharpResize w input (JNum 20) (JNum 10) = Inr (data, 20, 10)"
      and "length data = 20 * 10"
  shows "\<exists>rows.
      convertToAscii w input [''width'' \<mapsto> JNum 20, ''charset'' \<mapsto> JStr (ascii ''simple'')]
        = Inr (concat (map (\<lambda>r. r @ [newline]) rows))
      \<and> length rows = 10
      \<and> (\<forall>y < 10. length (rows ! y) = 20
            \<and> (\<forall>x < 20. (data ! (y * 20 + x) = 255 \<longrightarrow> rows ! y ! x = 0x2588)
                      \<and> (data ! (y * 20 + x) = 0 \<longrightarrow> rows ! y ! x = 0x20)))"
proof -
  let ?opts = "defaults(''width'' \<mapsto> JNum 20, ''charset'' \<mapsto> JStr (ascii ''simple''))"
  let ?cs = "[0x2588, 0x2588, 0x2593, 0x2592, 0x2591, 0x20] :: jsstring"
  let ?rows = "map (asciiRow ?opts (PStr ?cs) data 20) [0..<10]"
  have c: "getProp ?opts ''contrast'' = JNum 1.2"
    and inv: "\<not> truthy (getProp ?opts ''invert'')"
    and wd: "getProp ?opts ''width'' = JNum 20"
    and ar: "getProp ?opts ''aspectRatio'' = JNum 0.5"
    and ch: "getProp ?opts ''charset'' = JStr (ascii ''simple'')"
    by (simp_all add: getProp_def defaults_def)
  have h: "targetHeightOf 100 100 (JNum 20) (JNum 0.5) = JNum 10"
    by (simp add: targetHeightOf_def roundDouble_numeral roundDouble_one)
  have tr: "convertTry w input ?opts = Inr (pixelsToAscii ?opts (PStr ?cs) data 20 10)"
    using assms(2,3) h by (simp add: convertTry_def ch getCharset_simple wd ar Let_def)
  have conv: "convertToAscii w input [''width'' \<mapsto> JNum 20, ''charset'' \<mapsto> JStr (ascii ''simple'')]
      = Inr (concat (map (\<lambda>r. r @ [newline]) ?rows))"
    by (simp add: convertToAscii_def validate_test_options assms(1) tr pixelsToAscii_rows)
  have row: "length (?rows ! y) = 20
      \<and> (\<forall>x < 20. (data ! (y * 20 + x) = 255 \<longrightarrow> ?rows ! y ! x = 0x2588)
                \<and> (data ! (y * 20 + x) = 0 \<longrightarrow> ?rows ! y ! x = 0x20))" if y: "y < 10" for y
  proof -
    have m: "?rows ! y = map (\<lambda>x. ?cs ! nat (glyphPosition ?opts ?cs data (y * 20 + x))) [0..<20]"
      using asciiRow_map[OF assms(4) y c, of ?cs] y by simp
    have "(data ! (y * 20 + x) = 255 \<longrightarrow> ?rows ! y ! x = 0x2588)
        \<and> (data ! (y * 20 + x) = 0 \<longrightarrow> ?rows ! y ! x = 0x20)" if x: "x < 20" for x
    proof -
      have i: "y * 20 + x < length data"
        using pixel_index_in_grid[OF x y] assms(4) by simp
      have e: "?rows ! y ! x = ?cs ! nat (glyphPosition ?opts ?cs data (y * 20 + x))"
        unfolding m using x by simp
      show ?thesis
        unfolding e using glyph_white[OF i _ c inv, of ?cs] glyph_black[OF i _ c inv, of ?cs]
        by auto
    qed
    then show ?thesis unfolding m by simp
  qed
  show ?thesis
    by (rule exI[of _ ?rows]) (use conv row in simp)
qed

text \<open>A white 100 by 100 image: ten rows of twenty full blocks.\<close>

theorem test_image_conversion_witness:
  "\<exists>rows.
      convertToAscii (uniformWorld (100, 100) 255) (Buffer [])
          [''width'' \<mapsto> JNum 20, ''charset'' \<mapsto> JStr (ascii ''simple'')]
        = Inr (concat (map (\<lambda>r. r @ [newline]) rows))
      \<and> length rows = 10
      \<and> (\<forall>y < 10. length (rows ! y) = 20 \<and> (\<forall>x < 20. rows ! y ! x = 0x2588))"
proof -
  have "checkInput (uniformWorld (100, 100) 255) (Buffer []) = None"
    and "sharpMetadata (uniformWorld (100, 100) 255) (Buffer []) = Inr (100, 100)"
    and "sharpResize (uniformWorld (100, 100) 255) (Buffer []) (JNum 20) (JNum 10)
           = Inr (replicate 200 255, 20, 10)"
    and "length (replicate 200 (255 :: 8 word)) = 20 * 10"
    by (simp_all add: uniformWorld_def checkInput_def)
  from test_image_conversion_amended[OF this]
  obtain rows where r: "convertToAscii (uniformWorld (100, 100) 255) (Buffer [])
          [''width'' \<mapsto> JNum 20, ''charset'' \<mapsto> JStr (ascii ''simple'')]
        = Inr (concat (map (\<lambda>r. r @ [newline]) rows))" "length rows = 10"
     and p: "\<forall>y < 10. length (rows ! y) = 20
            \<and> (\<forall>x < 20. (replicate 200 (255 :: 8 word) ! (y * 20 + x) = 255 \<longrightarrow> rows ! y ! x = 0x2588)
                      \<and> (replicate 200 (255 :: 8 word) ! (y * 20 + x) = 0 \<longrightarrow> rows ! y ! x = 0x20))"
    by blast
  have "length (rows ! y) = 20 \<and> (\<forall>x < 20. rows ! y ! x = 0x2588)" if y: "y < 10" for y
  proof -
    have "rows ! y ! x = 0x2588" if x: "x < 20" for x
    proof -
      have "y * 20 + x < 200" using pixel_index_in_grid[OF x y] by simp
      then have "replicate 200 (255 :: 8 word) ! (y * 20 + x) = 255" by simp
      with p x y show ?thesis by blast
    qed
    with p y show ?thesis by blast
  qed
  with r show ?thesis by blast
qed

section \<open>Inversion and unchecked fields\<close>

text \<open>
  C9. For a brightness \<open>b'\<close> after contrast and clamp, the glyph chosen under
  \<open>invert = true\<close> is the glyph chosen under \<open>invert = false\<close> for the brightness
  \<open>1 - b'\<close>; so at every pixel position, for options that differ in invert alone, the
  loop body under \<open>invert = true\<close> appends what the uninverted mapping appends for
  \<open>1 - b'\<close>, where \<open>b'\<close> is the brightness of that pixel.
\<close>

theorem invert_law:
  "brightnessToChar (JBool True) charset (Some b) = brightnessToChar (JBool False) charset (Some (1 - b))
   \<and> pixelChar (opts(''invert'' \<mapsto> JBool True)) charset data pixelIndex
       = brightnessToChar (JBool False) charset
           (map_option (\<lambda>b. 1 - b) (adjustBrightness (getProp opts ''contrast'') data pixelIndex))
   \<and> pixelChar (opts(''invert'' \<mapsto> JBool False)) charset data pixelIndex
       = brightnessToChar (JBool False) charset
           (adjustBrightness (getProp opts ''contrast'') data pixelIndex)"
  by (cases "adjustBrightness (getProp opts ''contrast'') data pixelIndex"; cases charset)
     (simp_all add: brightnessToChar_def pixelChar_def getProp_def)

lemma validate_upd:
  assumes "k \<noteq> ''width''" "k \<noteq> ''contrast''" "k \<noteq> ''aspectRatio''"
  shows "validateOptions (opts(k \<mapsto> v)) = map_sum id (\<lambda>r. r(k \<mapsto> v)) (validateOptions opts)"
  using assms by (simp add: validateOptions_def Let_def getProp_def)

text \<open>
  A charset that is a number or \<open>null\<close> passes validation.
\<close>

theorem validateOptions_charset_counterexample:
  "validateOptions [''charset'' \<mapsto> JNum 42] = Inr (defaults(''charset'' \<mapsto> JNum 42))
   \<and> validateOptions [''charset'' \<mapsto> Null] = Inr (defaults(''charset'' \<mapsto> Null))"
  by (simp add: validateOptions_def defaults_def getProp_def)

text \<open>
  C6, as the code has it. \<open>validateOptions\<close> does not look at the charset field: putting
  any value \<open>v\<close> of any type there leaves the outcome of validation as it is, except that
  the validated options carry \<open>v\<close> unchanged. What becomes of a charset that is not a
  string is decided only by the lookup \<open>getCharset\<close>, which treats every value as the
  string it converts to: \<open>null\<close> is rejected there with the unknown-charset error, the
  array \<open>['simple']\<close>, which converts to a registered name, is accepted.
\<close>

theorem validateOptions_ignores_charset:
  "validateOptions (opts(''charset'' \<mapsto> v))
      = map_sum id (\<lambda>validated. validated(''charset'' \<mapsto> v)) (validateOptions opts)
   \<and> getCharset render v = getCharset render (JStr (toStr render v))
   \<and> getCharset render Null
      = Inl (Error (ascii ''Unknown charset: null. Available: detailed, blocks, classic, simple, minimal, numbers, binary, retro''))
   \<and> getCharset render (JObj (ascii ''simple''))
      = Inr (PStr [0x2588, 0x2588, 0x2593, 0x2592, 0x2591, 0x20])"
proof -
  have "getCharset render Null
      = Inl (Error (ascii ''Unknown charset: null. Available: detailed, blocks, classic, simple, minimal, numbers, binary, retro''))"
    by (simp add: getCharset_def lookupCharsets_def CHARSETS_def objectPrototypeKeys_def
          ascii_def getAvailableCharsets_def)
  moreover have "getCharset render v = getCharset render (JStr (toStr render v))"
    by (simp add: getCharset_def)
  moreover have "getCharset render (JObj (ascii ''simple''))
      = Inr (PStr [0x2588, 0x2588, 0x2593, 0x2592, 0x2591, 0x20])"
    by (simp add: getCharset_def lookupCharsets_def CHARSETS_def ascii_def)
  ultimately show ?thesis by (simp add: validate_upd)
qed

text \<open>
  A boolean charset next to a valid width is returned as it is; the lookup then reads it
  as the string "true" and rejects it.
\<close>

theorem validateOptions_ignores_charset_witness:
  "validateOptions [''width'' \<mapsto> JNum 100, ''charset'' \<mapsto> JBool True]
     = Inr (defaults(''width'' \<mapsto> JNum 100, ''charset'' \<mapsto> JBool True))
   \<and> getCharset (\<lambda>x. []) (JBool True)
     = Inl (Error (ascii ''Unknown charset: true. Available: detailed, blocks, classic, simple, minimal, numbers, binary, retro''))"
proof -
  note inst = validateOptions_ignores_charset[of "[''width'' \<mapsto> JNum 100]" "JBool True" "\<lambda>x. []"]
  have "validateOptions [''width'' \<mapsto> JNum 100] = Inr (defaults(''width'' \<mapsto> JNum 100))"
    by (simp add: validateOptions_def defaults_def getProp_def)
  with inst have v: "validateOptions [''width'' \<mapsto> JNum 100, ''charset'' \<mapsto> JBool True]
     = Inr (defaults(''width'' \<mapsto> JNum 100, ''charset'' \<mapsto> JBool True))"
    by simp
  from inst have "getCharset (\<lambda>x. []) (JBool True) = getCharset (\<lambda>x. []) (JStr (ascii ''true''))"
    by simp
  also have "\<dots> = Inl (Error (ascii ''Unknown charset: true. Available: detailed, blocks, classic, simple, minimal, numbers, binary, retro''))"
    by (simp add: getCharset_def lookupCharsets_def CHARSETS_def objectPrototypeKeys_def
          ascii_def getAvailableCharsets_def)
  finally show ?thesis using v by simp
qed








section \<open>Saving and previewing\<close>

















lemma sliceTo_length_append: "sliceTo (int (length xs)) (xs @ ys) = xs"
  by (simp add: sliceTo_def)

text \<open>
  C8, at the inputs where the code departs from it. When the conversion has produced
  exactly \<open>previewLines\<close> rows (none of them containing a line break), the preview is
  all of these rows, none dropped, and yet ends with the truncation marker: the array
  that \<open>split\<close> returns has one more element, the empty string after the last line
  break, and the code compares its length with \<open>previewLines\<close>.
\<close>

theorem previewOf_marker_without_dropped_rows:
  assumes "\<forall>r \<in> set rows. newline \<notin> set r"
  shows "previewOf (concat (map (\<lambda>r. r @ [newline]) rows)) (int (length rows))
           = joinWith [newline] rows @ newline # ascii ''... (truncated)''"
proof -
  have "splitOn newline (concat (map (\<lambda>r. r @ [newline]) rows)) = rows @ [[]]"
    using assms by (rule splitOn_rows)
  then show ?thesis
    by (simp add: previewOf_def Let_def sliceTo_length_append)
qed

text \<open>One row of ten glyphs previewed with one line: the row is kept, the marker is appended.\<close>

theorem previewOf_marker_witness:
  "previewOf (replicate 10 0x40 @ [newline]) 1
     = replicate 10 0x40 @ newline # ascii ''... (truncated)''"
  using previewOf_marker_without_dropped_rows[of "[replicate 10 0x40]"] by (simp add: newline_def)

end
